theory Spec2Isabelle
  imports Complex_Main
begin

section \<open>Tensor elements\<close>

text \<open>
  The bijectors of \<^verbatim>\<open>sac/distributions/real_nvp_bijector.py\<close> compute on batches of
  floating-point rows. An element is modelled as a real number or one of the three special
  values of the floating-point type. On finite operands every operation is exact (no
  rounding, no overflow, no signed zero); on special values it follows the usual rules
  (\<open>0 * Inf = NaN\<close>, \<open>Inf - Inf = NaN\<close>, \<open>exp (-Inf) = 0\<close>, NaN is contagious).
  A statement that depends on the value of a finite operation is therefore about the
  transform in exact arithmetic; the program's floating-point operations round, and they
  overflow to Inf on large finite operands.
\<close>

datatype tval = Fin real | PInf | NInf | NaN

fun is_finite :: "tval \<Rightarrow> bool" where
  "is_finite (Fin _) = True"
| "is_finite _ = False"

fun tneg :: "tval \<Rightarrow> tval" where
  "tneg (Fin a) = Fin (- a)"
| "tneg PInf = NInf"
| "tneg NInf = PInf"
| "tneg NaN = NaN"

fun tmul :: "tval \<Rightarrow> tval \<Rightarrow> tval" where
  "tmul (Fin a) (Fin b) = Fin (a * b)"
| "tmul NaN _ = NaN"
| "tmul _ NaN = NaN"
| "tmul (Fin a) PInf = (if a = 0 then NaN else if 0 < a then PInf else NInf)"
| "tmul (Fin a) NInf = (if a = 0 then NaN else if 0 < a then NInf else PInf)"
| "tmul PInf (Fin b) = (if b = 0 then NaN else if 0 < b then PInf else NInf)"
| "tmul NInf (Fin b) = (if b = 0 then NaN else if 0 < b then NInf else PInf)"
| "tmul PInf PInf = PInf"
| "tmul PInf NInf = NInf"
| "tmul NInf PInf = NInf"
| "tmul NInf NInf = PInf"

fun tadd :: "tval \<Rightarrow> tval \<Rightarrow> tval" where
  "tadd (Fin a) (Fin b) = Fin (a + b)"
| "tadd NaN _ = NaN"
| "tadd _ NaN = NaN"
| "tadd PInf NInf = NaN"
| "tadd NInf PInf = NaN"
| "tadd PInf _ = PInf"
| "tadd _ PInf = PInf"
| "tadd NInf _ = NInf"
| "tadd _ NInf = NInf"

definition tsub :: "tval \<Rightarrow> tval \<Rightarrow> tval" where
  "tsub a b = tadd a (tneg b)"

fun texp :: "tval \<Rightarrow> tval" where
  "texp (Fin a) = Fin (exp a)"
| "texp PInf = PInf"
| "texp NInf = Fin 0"
| "texp NaN = NaN"

text \<open>\<^verbatim>\<open>tf.cast\<close> of a boolean to the tensor's dtype.\<close>

definition cast :: "bool \<Rightarrow> tval" where
  "cast b = (if b then Fin 1 else Fin 0)"

section \<open>Tensors of shape [batch, 2] and [batch]\<close>

text \<open>
  The coupling layer indexes columns 0 and 1 only (\<^verbatim>\<open>x[:, 0]\<close>, \<^verbatim>\<open>x[:, 1]\<close>) and
  stacks two columns into its result, so a batch is a list of rows of two elements. A
  tensor of shape [batch] is a list of elements.
\<close>

type_synonym row = "tval \<times> tval"
type_synonym tensor = "row list"
type_synonym vec = "tval list"

datatype error =
    NotImplementedError string
  | InvalidArgumentError string
  | ValueError
  | AssertionError

definition bindE :: "error + 'a \<Rightarrow> ('a \<Rightarrow> error + 'b) \<Rightarrow> error + 'b" where
  "bindE m f = (case m of Inl e \<Rightarrow> Inl e | Inr v \<Rightarrow> f v)"

definition all_finite :: "tensor \<Rightarrow> bool" where
  "all_finite t = list_all (\<lambda>(a, b). is_finite a \<and> is_finite b) t"

text \<open>\<^verbatim>\<open>tf.check_numerics(tensor, message)\<close>: the tensor itself, or an error when an
  element is NaN or Inf.\<close>

definition check_numerics :: "tensor \<Rightarrow> string \<Rightarrow> error + tensor" where
  "check_numerics t message = (if all_finite t then Inr t else Inl (InvalidArgumentError message))"

definition tensor_exp :: "tensor \<Rightarrow> tensor" where
  "tensor_exp t = map (\<lambda>(a, b). (texp a, texp b)) t"

text \<open>\<^verbatim>\<open>x * mask\<close> and \<^verbatim>\<open>mask * t\<close>: the mask of shape [2] is broadcast over the batch.\<close>

definition mul_mask :: "tensor \<Rightarrow> row \<Rightarrow> tensor" where
  "mul_mask x msk = map (\<lambda>(a, b). (tmul a (fst msk), tmul b (snd msk))) x"

definition mask_mul :: "row \<Rightarrow> tensor \<Rightarrow> tensor" where
  "mask_mul msk t = map (\<lambda>(a, b). (tmul (fst msk) a, tmul (snd msk) b)) t"

text \<open>The column slices \<^verbatim>\<open>t[:, 0]\<close> and \<^verbatim>\<open>t[:, 1]\<close>.\<close>

definition col0 :: "tensor \<Rightarrow> vec" where
  "col0 t = map fst t"

definition col1 :: "tensor \<Rightarrow> vec" where
  "col1 t = map snd t"

text \<open>
  An elementwise binary operation on two tensors of shape [batch]: equal lengths combine
  pointwise, a length of one is broadcast, any other pair of lengths is an error.
\<close>

definition broadcast :: "(tval \<Rightarrow> tval \<Rightarrow> tval) \<Rightarrow> vec \<Rightarrow> vec \<Rightarrow> error + vec" where
  "broadcast f u v =
     (if length u = length v then Inr (map2 f u v)
      else if length u = 1 then Inr (map (f (hd u)) v)
      else if length v = 1 then Inr (map (\<lambda>a. f a (hd v)) u)
      else Inl ValueError)"

text \<open>\<^verbatim>\<open>tf.stack((u, v), axis=1)\<close>: both columns must have the same shape.\<close>

definition stack :: "vec \<Rightarrow> vec \<Rightarrow> error + tensor" where
  "stack u v = (if length u = length v then Inr (zip u v) else Inl ValueError)"

text \<open>\<^verbatim>\<open>tf.reduce_sum(t, axis=(1,))\<close>: the sum of each row.\<close>

definition reduce_sum :: "tensor \<Rightarrow> vec" where
  "reduce_sum t = map (\<lambda>(a, b). tadd a b) t"

section \<open>The checkerboard mask\<close>

text \<open>
  \<^verbatim>\<open>checkerboard(shape, parity, dtype)\<close> for a shape \<open>(d,)\<close>: the unit pair tiled
  \<open>d // 2\<close> times and cast. (The reshape to \<open>(d,)\<close> that follows in the source needs an
  even \<open>d\<close>.) Any parity other than \<^verbatim>\<open>"even"\<close> takes the second unit.
\<close>

definition checkerboard :: "nat \<Rightarrow> string \<Rightarrow> tval list" where
  "checkerboard d parity =
     (let unit = (if parity = ''even'' then [True, False] else [False, True]);
          tiled = concat (replicate (d div 2) unit)
      in map cast tiled)"

section \<open>The coupling layer\<close>

text \<open>
  The fields of the base class that the code reads, then those of the layer. The
  conditioning keyword arguments (\<^verbatim>\<open>**condition_kwargs\<close>) are a value of type \<open>'c\<close>
  handed unchanged to the scale and translation functions. The public methods
  \<^verbatim>\<open>forward\<close>, \<^verbatim>\<open>inverse\<close>, ... of the base class delegate to the methods modelled here;
  the cache of input/output pairs that the base class keeps is left out. An exception,
  whether raised while the graph is built or while it runs, is an \<open>Inl\<close> value, and
  the first one in the order of the statements wins.
\<close>

record ConditionalBijector =
  event_ndims :: nat
  validate_args :: bool
  name :: string

record 'c CouplingBijector = ConditionalBijector +
  parity :: string
  translation_fn :: "tensor \<Rightarrow> 'c \<Rightarrow> tensor"
  scale_fn :: "tensor \<Rightarrow> 'c \<Rightarrow> tensor"

definition get_mask :: "'c CouplingBijector \<Rightarrow> row" where
  "get_mask self = (let msk = checkerboard 2 (parity self) in (msk ! 0, msk ! 1))"

definition coupling_maybe_assert_valid_x :: "'c CouplingBijector \<Rightarrow> tensor \<Rightarrow> error + tensor" where
  "coupling_maybe_assert_valid_x self x =
     (if \<not> validate_args self then Inr x
      else Inl (NotImplementedError ''_maybe_assert_valid_x''))"

definition coupling_maybe_assert_valid_y :: "'c CouplingBijector \<Rightarrow> tensor \<Rightarrow> error + tensor" where
  "coupling_maybe_assert_valid_y self y =
     (if \<not> validate_args self then Inr y
      else Inl (NotImplementedError ''_maybe_assert_valid_y''))"

definition coupling_forward :: "'c CouplingBijector \<Rightarrow> tensor \<Rightarrow> 'c \<Rightarrow> error + tensor" where
  "coupling_forward self x c =
     bindE (coupling_maybe_assert_valid_x self x) (\<lambda>_.
       let msk = get_mask self;
           masked_x = mul_mask x msk;
           scale = mask_mul msk (scale_fn self masked_x c);
           translation = mask_mul msk (translation_fn self masked_x c)
       in bindE (check_numerics (tensor_exp scale) ''tf.exp(scale) contains NaNs or Infs.'')
            (\<lambda>exp_scale.
               if parity self = ''odd'' then
                 bindE (broadcast tmul (col0 x) (col1 exp_scale)) (\<lambda>p.
                 bindE (broadcast tadd p (col1 translation)) (\<lambda>q.
                 stack q (col1 x)))
               else
                 bindE (broadcast tmul (col1 x) (col0 exp_scale)) (\<lambda>p.
                 bindE (broadcast tadd p (col0 translation)) (\<lambda>q.
                 stack (col0 x) q))))"

definition coupling_forward_log_det_jacobian :: "'c CouplingBijector \<Rightarrow> tensor \<Rightarrow> 'c \<Rightarrow> error + vec" where
  "coupling_forward_log_det_jacobian self x c =
     bindE (coupling_maybe_assert_valid_x self x) (\<lambda>_.
       let msk = get_mask self;
           masked_x = mul_mask x msk;
           scale = mask_mul msk (scale_fn self masked_x c)
       in Inr (reduce_sum scale))"

definition coupling_inverse :: "'c CouplingBijector \<Rightarrow> tensor \<Rightarrow> 'c \<Rightarrow> error + tensor" where
  "coupling_inverse self y c =
     bindE (coupling_maybe_assert_valid_y self y) (\<lambda>_.
       let msk = get_mask self;
           masked_y = mul_mask y msk;
           scale = mask_mul msk (scale_fn self masked_y c);
           translation = mask_mul msk (translation_fn self masked_y c)
       in if parity self = ''odd'' then
            bindE (broadcast tsub (col0 y) (col1 translation)) (\<lambda>p.
            bindE (broadcast tmul p (map texp (map tneg (col1 scale)))) (\<lambda>q.
            stack q (col1 y)))
          else
            bindE (broadcast tsub (col1 y) (col0 translation)) (\<lambda>p.
            bindE (broadcast tmul p (map texp (map tneg (col0 scale)))) (\<lambda>q.
            stack (col0 y) q)))"

definition coupling_inverse_log_det_jacobian :: "'c CouplingBijector \<Rightarrow> tensor \<Rightarrow> 'c \<Rightarrow> error + vec" where
  "coupling_inverse_log_det_jacobian self y c =
     bindE (coupling_maybe_assert_valid_y self y) (\<lambda>_.
       let msk = get_mask self;
           masked_y = mul_mask y msk;
           scale = mask_mul msk (scale_fn self masked_y c)
       in Inr (map tneg (reduce_sum scale)))"

section \<open>The flow\<close>

record 'c RealNVPBijector = ConditionalBijector +
  layers :: "'c CouplingBijector list"

text \<open>Decimal digits of a layer index, for \<^verbatim>\<open>"coupling_{i}".format(i=i)\<close>.\<close>

fun str_nat :: "nat \<Rightarrow> string" where
  "str_nat n =
     (if n < 10 then [char_of (48 + n)]
      else str_nat (n div 10) @ [char_of (48 + n mod 10)])"

declare str_nat.simps [simp del]

definition str_int :: "int \<Rightarrow> string" where
  "str_int i = (if i < 0 then CHR ''-'' # str_nat (nat (- i)) else str_nat (nat i))"

text \<open>
  \<^verbatim>\<open>RealNVPBijector.build\<close>. The two wrappers are feed-forward networks whose weights
  live in the variable scope of the calling layer, so each layer has functions of its own:
  the wrappers are taken as parameters indexed by the layer's number. The layers are
  constructed with the default \<^verbatim>\<open>event_ndims=0\<close> and \<^verbatim>\<open>validate_args=False\<close>.
\<close>

definition build ::
  "int \<Rightarrow> (int \<Rightarrow> tensor \<Rightarrow> 'c \<Rightarrow> tensor) \<Rightarrow> (int \<Rightarrow> tensor \<Rightarrow> 'c \<Rightarrow> tensor)
     \<Rightarrow> 'c CouplingBijector list" where
  "build num_coupling_layers translation_wrapper scale_wrapper =
     map (\<lambda>i. \<lparr> event_ndims = 0, validate_args = False,
                name = ''coupling_'' @ str_int i,
                parity = [''even'', ''odd''] ! nat (i mod 2),
                translation_fn = translation_wrapper i,
                scale_fn = scale_wrapper i \<rparr>)
         [1..num_coupling_layers]"

definition RealNVPBijector_init ::
  "int \<Rightarrow> (int \<Rightarrow> tensor \<Rightarrow> 'c \<Rightarrow> tensor) \<Rightarrow> (int \<Rightarrow> tensor \<Rightarrow> 'c \<Rightarrow> tensor) \<Rightarrow> bool
     \<Rightarrow> 'c RealNVPBijector" where
  "RealNVPBijector_init num_coupling_layers translation_wrapper scale_wrapper validate =
     \<lparr> event_ndims = 0, validate_args = validate, name = ''real_nvp'',
       layers = build num_coupling_layers translation_wrapper scale_wrapper \<rparr>"

definition nvp_maybe_assert_valid_x :: "'c RealNVPBijector \<Rightarrow> tensor \<Rightarrow> error + tensor" where
  "nvp_maybe_assert_valid_x self x =
     (if \<not> validate_args self then Inr x
      else Inl (NotImplementedError ''_maybe_assert_valid_x''))"

definition nvp_maybe_assert_valid_y :: "'c RealNVPBijector \<Rightarrow> tensor \<Rightarrow> error + tensor" where
  "nvp_maybe_assert_valid_y self y =
     (if \<not> validate_args self then Inr y
      else Inl (NotImplementedError ''_maybe_assert_valid_y''))"

text \<open>The loops over \<^verbatim>\<open>self.layers\<close>; an exception in a layer ends the loop.\<close>

fun forward_loop :: "'c CouplingBijector list \<Rightarrow> tensor \<Rightarrow> 'c \<Rightarrow> error + tensor" where
  "forward_loop [] out c = Inr out"
| "forward_loop (layer # rest) out c =
     bindE (coupling_forward layer out c) (\<lambda>out'. forward_loop rest out' c)"

fun inverse_loop :: "'c CouplingBijector list \<Rightarrow> tensor \<Rightarrow> 'c \<Rightarrow> error + tensor" where
  "inverse_loop [] out c = Inr out"
| "inverse_loop (layer # rest) out c =
     bindE (coupling_inverse layer out c) (\<lambda>out'. inverse_loop rest out' c)"

fun forward_ldj_loop :: "'c CouplingBijector list \<Rightarrow> vec \<Rightarrow> tensor \<Rightarrow> 'c \<Rightarrow> error + vec" where
  "forward_ldj_loop [] sum_log_det_jacobians out c = Inr sum_log_det_jacobians"
| "forward_ldj_loop (layer # rest) sum_log_det_jacobians out c =
     bindE (coupling_forward_log_det_jacobian layer out c) (\<lambda>log_det_jacobian.
     bindE (coupling_forward layer out c) (\<lambda>out'.
       if length sum_log_det_jacobians = length log_det_jacobian
       then forward_ldj_loop rest (map2 tadd sum_log_det_jacobians log_det_jacobian) out' c
       else Inl AssertionError))"

fun inverse_ldj_loop :: "'c CouplingBijector list \<Rightarrow> vec \<Rightarrow> tensor \<Rightarrow> 'c \<Rightarrow> error + vec" where
  "inverse_ldj_loop [] sum_log_det_jacobians out c = Inr sum_log_det_jacobians"
| "inverse_ldj_loop (layer # rest) sum_log_det_jacobians out c =
     bindE (coupling_inverse_log_det_jacobian layer out c) (\<lambda>log_det_jacobian.
     bindE (coupling_inverse layer out c) (\<lambda>out'.
       if length sum_log_det_jacobians = length log_det_jacobian
       then inverse_ldj_loop rest (map2 tadd sum_log_det_jacobians log_det_jacobian) out' c
       else Inl AssertionError))"

text \<open>\<^verbatim>\<open>tf.reduce_sum(tf.zeros_like(x), axis=(1,))\<close>: one zero for each row.\<close>

definition zeros_sum :: "tensor \<Rightarrow> vec" where
  "zeros_sum x = reduce_sum (map (\<lambda>_. (Fin 0, Fin 0)) x)"

definition nvp_forward :: "'c RealNVPBijector \<Rightarrow> tensor \<Rightarrow> 'c \<Rightarrow> error + tensor" where
  "nvp_forward self x c =
     bindE (nvp_maybe_assert_valid_x self x) (\<lambda>_. forward_loop (layers self) x c)"

definition nvp_forward_log_det_jacobian :: "'c RealNVPBijector \<Rightarrow> tensor \<Rightarrow> 'c \<Rightarrow> error + vec" where
  "nvp_forward_log_det_jacobian self x c =
     bindE (nvp_maybe_assert_valid_x self x) (\<lambda>_.
       forward_ldj_loop (layers self) (zeros_sum x) x c)"

definition nvp_inverse :: "'c RealNVPBijector \<Rightarrow> tensor \<Rightarrow> 'c \<Rightarrow> error + tensor" where
  "nvp_inverse self y c =
     bindE (nvp_maybe_assert_valid_y self y) (\<lambda>_. inverse_loop (rev (layers self)) y c)"

definition nvp_inverse_log_det_jacobian :: "'c RealNVPBijector \<Rightarrow> tensor \<Rightarrow> 'c \<Rightarrow> error + vec" where
  "nvp_inverse_log_det_jacobian self y c =
     bindE (nvp_maybe_assert_valid_y self y) (\<lambda>_.
       inverse_ldj_loop (rev (layers self)) (zeros_sum y) y c)"

section \<open>Finite tensors\<close>

text \<open>
  In exact arithmetic every element is a real number. A tensor all of whose elements are
  finite is the image of a list of pairs of reals; \<open>reals\<close> reads the reals back.
\<close>

fun the_fin :: "tval \<Rightarrow> real" where
  "the_fin (Fin r) = r"
| "the_fin _ = 0"

definition fin_rows :: "(real \<times> real) list \<Rightarrow> tensor" where
  "fin_rows rs = map (\<lambda>(a, b). (Fin a, Fin b)) rs"

definition fins :: "real list \<Rightarrow> vec" where
  "fins rs = map Fin rs"

definition reals :: "tensor \<Rightarrow> (real \<times> real) list" where
  "reals t = map (\<lambda>(a, b). (the_fin a, the_fin b)) t"

text \<open>
  A scale or translation function computed in exact arithmetic, at the conditioning \<open>c\<close>:
  on a finite batch it returns a finite batch of the same shape (the spec's "vector same
  shape as input").
\<close>

definition finite_net :: "(tensor \<Rightarrow> 'c \<Rightarrow> tensor) \<Rightarrow> 'c \<Rightarrow> bool" where
  "finite_net f c = (\<forall>m. all_finite m \<longrightarrow> length (f m c) = length m \<and> all_finite (f m c))"

definition finite_layer :: "'c CouplingBijector \<Rightarrow> 'c \<Rightarrow> bool" where
  "finite_layer l c = (finite_net (scale_fn l) c \<and> finite_net (translation_fn l) c)"

text \<open>The layers of a flow as \<^verbatim>\<open>build\<close> makes them: validation off, functions as above.\<close>

definition finite_layers :: "'c CouplingBijector list \<Rightarrow> 'c \<Rightarrow> bool" where
  "finite_layers ls c = list_all (\<lambda>k. \<not> validate_args k \<and> finite_layer k c) ls"

section \<open>Constructors and constant networks\<close>

text \<open>\<^verbatim>\<open>CouplingBijector.__init__\<close> with \<^verbatim>\<open>event_ndims\<close> and \<^verbatim>\<open>name\<close> at their defaults.\<close>

definition CouplingBijector_init ::
  "string \<Rightarrow> (tensor \<Rightarrow> 'c \<Rightarrow> tensor) \<Rightarrow> (tensor \<Rightarrow> 'c \<Rightarrow> tensor) \<Rightarrow> bool
     \<Rightarrow> 'c CouplingBijector" where
  "CouplingBijector_init par translation scale validate =
     \<lparr> event_ndims = 0, validate_args = validate, name = ''coupling_bijector'',
       parity = par, translation_fn = translation, scale_fn = scale \<rparr>"

text \<open>A function that returns the row \<open>v\<close> for every row of its input.\<close>

definition const_net :: "row \<Rightarrow> tensor \<Rightarrow> 'c \<Rightarrow> tensor" where
  "const_net v m c = map (\<lambda>_. v) m"

definition const_nets :: "row \<Rightarrow> int \<Rightarrow> tensor \<Rightarrow> 'c \<Rightarrow> tensor" where
  "const_nets v i = const_net v"

text \<open>Layers and flows with constant networks, for evaluation on concrete inputs.\<close>

definition example_layer :: "string \<Rightarrow> unit CouplingBijector" where
  "example_layer par =
     CouplingBijector_init par (const_net (Fin 3, Fin 5)) (const_net (Fin (ln 2), Fin 7)) False"

definition example_flow :: "int \<Rightarrow> unit RealNVPBijector" where
  "example_flow n =
     RealNVPBijector_init n (const_nets (Fin 3, Fin 5)) (const_nets (Fin (ln 2), Fin 7)) False"


definition inf_layer :: "string \<Rightarrow> row \<Rightarrow> bool \<Rightarrow> unit CouplingBijector" where
  "inf_layer par s v = CouplingBijector_init par (const_net (Fin 0, Fin 0)) (const_net s) v"

section \<open>Intermediate values of the transforms\<close>

text \<open>
  The masked scale (the local \<^verbatim>\<open>scale\<close> of the forward transform and of the forward
  log-det-Jacobian).
\<close>

definition forward_scale :: "'c CouplingBijector \<Rightarrow> tensor \<Rightarrow> 'c \<Rightarrow> tensor" where
  "forward_scale self x c =
     (let msk = get_mask self;
          masked_x = mul_mask x msk
      in mask_mul msk (scale_fn self masked_x c))"

text \<open>
  The value of \<^verbatim>\<open>tf.exp(scale)\<close> that the forward transform hands to
  \<^verbatim>\<open>tf.check_numerics\<close>, and the value of \<^verbatim>\<open>tf.exp(-scale[:, j])\<close> that the inverse
  transform multiplies by.
\<close>

definition forward_exp_scale :: "'c CouplingBijector \<Rightarrow> tensor \<Rightarrow> 'c \<Rightarrow> tensor" where
  "forward_exp_scale self x c =
     (let msk = get_mask self;
          masked_x = mul_mask x msk;
          scale = mask_mul msk (scale_fn self masked_x c)
      in tensor_exp scale)"

definition inverse_exp_neg_scale :: "'c CouplingBijector \<Rightarrow> tensor \<Rightarrow> 'c \<Rightarrow> vec" where
  "inverse_exp_neg_scale self y c =
     (let msk = get_mask self;
          masked_y = mul_mask y msk;
          scale = mask_mul msk (scale_fn self masked_y c)
      in if parity self = ''odd'' then map texp (map tneg (col1 scale))
         else map texp (map tneg (col0 scale)))"

text \<open>The scale and translation functions return one row for each row of the input.\<close>

definition same_batch :: "'c CouplingBijector \<Rightarrow> tensor \<Rightarrow> 'c \<Rightarrow> bool" where
  "same_batch self x c =
     (let masked_x = mul_mask x (get_mask self)
      in length (scale_fn self masked_x c) = length x
       \<and> length (translation_fn self masked_x c) = length x)"

text \<open>
  A forward pass that retraces: every layer is of parity \<^verbatim>\<open>"even"\<close> or \<^verbatim>\<open>"odd"\<close>,
  returns a finite batch, has a finite masked scale with one row for each input row, and
  its inverse transform maps the batch it returned back to the batch it received.
\<close>

fun pass_retraces :: "'c CouplingBijector list \<Rightarrow> tensor \<Rightarrow> 'c \<Rightarrow> bool" where
  "pass_retraces [] x c = True"
| "pass_retraces (layer # rest) x c =
     (case coupling_forward layer x c of
        Inl e \<Rightarrow> False
      | Inr y \<Rightarrow>
          (parity layer = ''even'' \<or> parity layer = ''odd'')
          \<and> all_finite y
          \<and> all_finite (forward_scale layer x c)
          \<and> length (forward_scale layer x c) = length x
          \<and> coupling_inverse layer y c = Inr x
          \<and> pass_retraces rest y c)"


text \<open>
  A layer's forward transform on a single sample, as a function of the two real
  coordinates, and the determinant of a 2 by 2 matrix given by its rows.
\<close>

definition forward_real :: "'c CouplingBijector \<Rightarrow> 'c \<Rightarrow> real \<Rightarrow> real \<Rightarrow> real \<times> real" where
  "forward_real l c a b =
     (case coupling_forward l [(Fin a, Fin b)] c of
        Inr [(u, v)] \<Rightarrow> (the_fin u, the_fin v)
      | _ \<Rightarrow> (0, 0))"

definition det2 :: "real \<Rightarrow> real \<Rightarrow> real \<Rightarrow> real \<Rightarrow> real" where
  "det2 j00 j01 j10 j11 = j00 * j11 - j01 * j10"

section \<open>Arithmetic on finite tensors\<close>

lemma fin_the_fin: "is_finite a \<Longrightarrow> Fin (the_fin a) = a"
  by (cases a) auto

lemma all_finite_fin_rows [simp]: "all_finite (fin_rows rs)"
  by (induction rs) (auto simp: all_finite_def fin_rows_def)

lemma fin_rows_reals: "all_finite t \<Longrightarrow> fin_rows (reals t) = t"
  by (induction t) (auto simp: all_finite_def fin_rows_def reals_def fin_the_fin)

lemma reals_fin_rows [simp]: "reals (fin_rows rs) = rs"
  by (induction rs) (auto simp: fin_rows_def reals_def)

lemma length_fin_rows [simp]: "length (fin_rows rs) = length rs"
  by (simp add: fin_rows_def)

lemma length_reals [simp]: "length (reals t) = length t"
  by (simp add: reals_def)

lemma fin_rows_inject [simp]: "fin_rows a = fin_rows b \<longleftrightarrow> a = b"
  by (metis reals_fin_rows)

lemma get_mask_even: "parity l = ''even'' \<Longrightarrow> get_mask l = (Fin 1, Fin 0)"
  by (simp add: get_mask_def checkerboard_def cast_def)

lemma get_mask_not_even: "parity l \<noteq> ''even'' \<Longrightarrow> get_mask l = (Fin 0, Fin 1)"
  by (simp add: get_mask_def checkerboard_def cast_def)

lemma bindE_Inr [simp]: "bindE (Inr v) f = f v"
  by (simp add: bindE_def)

lemma bindE_Inl [simp]: "bindE (Inl e) f = Inl e"
  by (simp add: bindE_def)

lemma mul_mask_fin: "mul_mask (fin_rows rs) (Fin p, Fin q) = fin_rows (map (\<lambda>(a, b). (a * p, b * q)) rs)"
  by (induction rs) (auto simp: fin_rows_def mul_mask_def)

lemma mask_mul_fin: "mask_mul (Fin p, Fin q) (fin_rows rs) = fin_rows (map (\<lambda>(a, b). (p * a, q * b)) rs)"
  by (induction rs) (auto simp: fin_rows_def mask_mul_def)

lemma tensor_exp_fin: "tensor_exp (fin_rows rs) = fin_rows (map (\<lambda>(a, b). (exp a, exp b)) rs)"
  by (induction rs) (auto simp: fin_rows_def tensor_exp_def)

lemma length_fins [simp]: "length (fins u) = length u"
  by (simp add: fins_def)

lemma col_fin: "col0 (fin_rows rs) = fins (map fst rs)" "col1 (fin_rows rs) = fins (map snd rs)"
  by (induction rs) (auto simp: fin_rows_def col0_def col1_def fins_def)

lemma check_numerics_fin: "check_numerics (fin_rows rs) msg = Inr (fin_rows rs)"
  by (simp add: check_numerics_def)

lemma reduce_sum_fin: "reduce_sum (fin_rows rs) = fins (map (\<lambda>(a, b). a + b) rs)"
  by (induction rs) (auto simp: fin_rows_def reduce_sum_def fins_def)

lemma map2_fins:
  "map2 tmul (fins u) (fins v) = fins (map2 (*) u v)"
  "map2 tadd (fins u) (fins v) = fins (map2 (+) u v)"
  "map2 tsub (fins u) (fins v) = fins (map2 (-) u v)"
  by (simp_all add: zip_map_map tsub_def split_def fins_def)

lemma map_fins:
  "map texp (fins u) = fins (map exp u)"
  "map tneg (fins u) = fins (map uminus u)"
  "map (\<lambda>x. texp (tneg x)) (fins u) = fins (map (\<lambda>x. exp (- x)) u)"
  by (simp_all add: fins_def)

lemma broadcast_fins:
  "length u = length v \<Longrightarrow> broadcast tmul (fins u) (fins v) = Inr (fins (map2 (*) u v))"
  "length u = length v \<Longrightarrow> broadcast tadd (fins u) (fins v) = Inr (fins (map2 (+) u v))"
  "length u = length v \<Longrightarrow> broadcast tsub (fins u) (fins v) = Inr (fins (map2 (-) u v))"
  by (simp_all add: broadcast_def map2_fins)

lemma stack_fins:
  "length u = length v \<Longrightarrow> stack (fins u) (fins v) = Inr (fin_rows (zip u v))"
  by (simp add: stack_def fin_rows_def zip_map_map split_def fins_def)

lemmas fin_simps = mul_mask_fin mask_mul_fin tensor_exp_fin col_fin check_numerics_fin
  reduce_sum_fin map_fins map2_fins broadcast_fins stack_fins

lemma finite_netD:
  assumes "finite_net f c"
  shows "\<exists>ss. f (fin_rows ms) c = fin_rows ss \<and> length ss = length ms"
proof -
  have "length (f (fin_rows ms) c) = length ms" "all_finite (f (fin_rows ms) c)"
    using assms by (simp_all add: finite_net_def)
  then show ?thesis
    by (metis fin_rows_reals length_reals)
qed


lemma finite_layerD:
  assumes "finite_layer l c"
  obtains ss ts where "scale_fn l (fin_rows ms) c = fin_rows ss" "length ss = length ms"
    "translation_fn l (fin_rows ms) c = fin_rows ts" "length ts = length ms"
  using finite_netD [of "scale_fn l" c ms] finite_netD [of "translation_fn l" c ms] assms
  by (auto simp: finite_layer_def)

lemma layer_fin_even:
  assumes par: "parity l = ''even''" and nv: "\<not> validate_args l" and fl: "finite_layer l c"
  shows "\<exists>ys ds. length ys = length xs \<and> length ds = length xs
     \<and> coupling_forward l (fin_rows xs) c = Inr (fin_rows ys)
     \<and> coupling_inverse l (fin_rows ys) c = Inr (fin_rows xs)
     \<and> coupling_forward_log_det_jacobian l (fin_rows xs) c = Inr (fins ds)
     \<and> coupling_inverse_log_det_jacobian l (fin_rows ys) c = Inr (fins (map uminus ds))"
proof -
  let ?m = "map (\<lambda>(a, b). (a, 0)) xs"
  obtain ss ts where st: "scale_fn l (fin_rows ?m) c = fin_rows ss" "length ss = length xs"
    "translation_fn l (fin_rows ?m) c = fin_rows ts" "length ts = length xs"
    using finite_layerD [OF fl, of ?m] by auto
  define ys where "ys = zip (map fst xs) (map2 (+) (map2 (*) (map snd xs) (map (exp \<circ> fst) ss)) (map fst ts))"
  have len: "length ys = length xs" using st by (simp add: ys_def)
  have m: "map (\<lambda>(a, b). (a, 0)) ys = ?m"
    using st by (intro nth_equalityI) (simp_all add: ys_def split_def)
  have st': "scale_fn l (fin_rows (map (\<lambda>(a, b). (a, 0)) ys)) c = fin_rows ss"
    "translation_fn l (fin_rows (map (\<lambda>(a, b). (a, 0)) ys)) c = fin_rows ts"
    using st by (simp_all only: m)
  have fwd: "coupling_forward l (fin_rows xs) c = Inr (fin_rows ys)"
    using par nv st
    by (simp add: coupling_forward_def coupling_maybe_assert_valid_x_def get_mask_even fin_simps split_def comp_def ys_def)
  have rt: "zip (map fst ys) (map2 (*) (map2 (-) (map snd ys) (map fst ts)) (map (exp \<circ> uminus \<circ> fst) ss)) = xs"
    using st by (intro nth_equalityI) (simp_all add: ys_def split_def exp_minus prod_eq_iff)
  have inv: "coupling_inverse l (fin_rows ys) c = Inr (fin_rows xs)"
    using par nv st st' len rt
    by (simp add: coupling_inverse_def coupling_maybe_assert_valid_y_def get_mask_even fin_simps split_def comp_def Let_def)
  have f: "coupling_forward_log_det_jacobian l (fin_rows xs) c = Inr (fins (map fst ss))"
    using par nv st
    by (simp add: coupling_forward_log_det_jacobian_def coupling_maybe_assert_valid_x_def get_mask_even fin_simps split_def comp_def)
  have i: "coupling_inverse_log_det_jacobian l (fin_rows ys) c = Inr (fins (map uminus (map fst ss)))"
    using par nv st st'
    by (simp add: coupling_inverse_log_det_jacobian_def coupling_maybe_assert_valid_y_def get_mask_even fin_simps split_def comp_def Let_def)
  show ?thesis using len st(2) fwd inv f i
    by (intro exI [of _ ys] exI [of _ "map fst ss"]) simp
qed


lemma layer_fin_odd:
  assumes par: "parity l = ''odd''" and nv: "\<not> validate_args l" and fl: "finite_layer l c"
  shows "\<exists>ys ds. length ys = length xs \<and> length ds = length xs
     \<and> coupling_forward l (fin_rows xs) c = Inr (fin_rows ys)
     \<and> coupling_inverse l (fin_rows ys) c = Inr (fin_rows xs)
     \<and> coupling_forward_log_det_jacobian l (fin_rows xs) c = Inr (fins ds)
     \<and> coupling_inverse_log_det_jacobian l (fin_rows ys) c = Inr (fins (map uminus ds))"
proof -
  let ?m = "map (\<lambda>(a, b). (0, b)) xs"
  have ne: "parity l \<noteq> ''even''" using par by simp
  obtain ss ts where st: "scale_fn l (fin_rows ?m) c = fin_rows ss" "length ss = length xs"
    "translation_fn l (fin_rows ?m) c = fin_rows ts" "length ts = length xs"
    using finite_layerD [OF fl, of ?m] by auto
  define ys where "ys = zip (map2 (+) (map2 (*) (map fst xs) (map (exp \<circ> snd) ss)) (map snd ts)) (map snd xs)"
  have len: "length ys = length xs" using st by (simp add: ys_def)
  have m: "map (\<lambda>(a, b). (0, b)) ys = ?m"
    using st by (intro nth_equalityI) (simp_all add: ys_def split_def)
  have st': "scale_fn l (fin_rows (map (\<lambda>(a, b). (0, b)) ys)) c = fin_rows ss"
    "translation_fn l (fin_rows (map (\<lambda>(a, b). (0, b)) ys)) c = fin_rows ts"
    using st by (simp_all only: m)
  have fwd: "coupling_forward l (fin_rows xs) c = Inr (fin_rows ys)"
    using par nv st
    by (simp add: coupling_forward_def coupling_maybe_assert_valid_x_def get_mask_not_even [OF ne] fin_simps split_def comp_def ys_def)
  have rt: "zip (map2 (*) (map2 (-) (map fst ys) (map snd ts)) (map (exp \<circ> uminus \<circ> snd) ss)) (map snd ys) = xs"
    using st by (intro nth_equalityI) (simp_all add: ys_def split_def exp_minus prod_eq_iff)
  have inv: "coupling_inverse l (fin_rows ys) c = Inr (fin_rows xs)"
    using par nv st st' len rt
    by (simp add: coupling_inverse_def coupling_maybe_assert_valid_y_def get_mask_not_even [OF ne] fin_simps split_def comp_def Let_def)
  have f: "coupling_forward_log_det_jacobian l (fin_rows xs) c = Inr (fins (map snd ss))"
    using par nv st
    by (simp add: coupling_forward_log_det_jacobian_def coupling_maybe_assert_valid_x_def get_mask_not_even [OF ne] fin_simps split_def comp_def)
  have i: "coupling_inverse_log_det_jacobian l (fin_rows ys) c = Inr (fins (map uminus (map snd ss)))"
    using par nv st st'
    by (simp add: coupling_inverse_log_det_jacobian_def coupling_maybe_assert_valid_y_def get_mask_not_even [OF ne] fin_simps split_def comp_def Let_def)
  show ?thesis using len st(2) fwd inv f i
    by (intro exI [of _ ys] exI [of _ "map snd ss"]) simp
qed

lemma layer_fin_other:
  assumes ne: "parity l \<noteq> ''even''" and no: "parity l \<noteq> ''odd''"
    and nv: "\<not> validate_args l" and fl: "finite_layer l c"
  shows "\<exists>ys ds. length ys = length xs \<and> length ds = length xs
     \<and> coupling_forward l (fin_rows xs) c = Inr (fin_rows ys)
     \<and> coupling_inverse l (fin_rows ys) c = Inr (fin_rows xs)
     \<and> coupling_forward_log_det_jacobian l (fin_rows xs) c = Inr (fins ds)
     \<and> coupling_inverse_log_det_jacobian l (fin_rows ys) c = Inr (fins (map uminus ds))"
proof -
  let ?m = "map (\<lambda>(a, b). (0, b)) xs"
  obtain ss ts where st: "scale_fn l (fin_rows ?m) c = fin_rows ss" "length ss = length xs"
    "translation_fn l (fin_rows ?m) c = fin_rows ts" "length ts = length xs"
    using finite_layerD [OF fl, of ?m] by auto
  have rt: "zip (map fst xs) (map2 (+) (map2 (*) (map snd xs) (map (\<lambda>_. 1) ss)) (map (\<lambda>_. 0) ts)) = xs"
    using st by (intro nth_equalityI) (simp_all add: split_def prod_eq_iff)
  have fwd: "coupling_forward l (fin_rows xs) c = Inr (fin_rows xs)"
    using ne no nv st rt
    by (simp add: coupling_forward_def coupling_maybe_assert_valid_x_def get_mask_not_even [OF ne] fin_simps split_def comp_def)
  have rt': "zip (map fst xs) (map2 (*) (map2 (-) (map snd xs) (map (\<lambda>_. 0) ts)) (map (\<lambda>_. 1) ss)) = xs"
    using st by (intro nth_equalityI) (simp_all add: split_def prod_eq_iff)
  have inv: "coupling_inverse l (fin_rows xs) c = Inr (fin_rows xs)"
    using ne no nv st rt'
    by (simp add: coupling_inverse_def coupling_maybe_assert_valid_y_def get_mask_not_even [OF ne] fin_simps split_def comp_def Let_def)
  have f: "coupling_forward_log_det_jacobian l (fin_rows xs) c = Inr (fins (map snd ss))"
    using nv st
    by (simp add: coupling_forward_log_det_jacobian_def coupling_maybe_assert_valid_x_def get_mask_not_even [OF ne] fin_simps split_def comp_def)
  have i: "coupling_inverse_log_det_jacobian l (fin_rows xs) c = Inr (fins (map uminus (map snd ss)))"
    using nv st
    by (simp add: coupling_inverse_log_det_jacobian_def coupling_maybe_assert_valid_y_def get_mask_not_even [OF ne] fin_simps split_def comp_def Let_def)
  show ?thesis using st(2) fwd inv f i
    by (intro exI [of _ xs] exI [of _ "map snd ss"]) simp
qed

lemma layer_fin:
  assumes "\<not> validate_args l" "finite_layer l c"
  shows "\<exists>ys ds. length ys = length xs \<and> length ds = length xs
     \<and> coupling_forward l (fin_rows xs) c = Inr (fin_rows ys)
     \<and> coupling_inverse l (fin_rows ys) c = Inr (fin_rows xs)
     \<and> coupling_forward_log_det_jacobian l (fin_rows xs) c = Inr (fins ds)
     \<and> coupling_inverse_log_det_jacobian l (fin_rows ys) c = Inr (fins (map uminus ds))"
  using layer_fin_even [OF _ assms] layer_fin_odd [OF _ assms] layer_fin_other [OF _ _ assms]
  by blast


lemma forward_loop_append:
  "forward_loop (as @ bs) x c = bindE (forward_loop as x c) (\<lambda>z. forward_loop bs z c)"
  by (induction as arbitrary: x) (auto simp: bindE_def split: sum.splits)

lemma inverse_loop_append:
  "inverse_loop (as @ bs) y c = bindE (inverse_loop as y c) (\<lambda>z. inverse_loop bs z c)"
  by (induction as arbitrary: y) (auto simp: bindE_def split: sum.splits)

lemma inverse_ldj_loop_append:
  "inverse_ldj_loop (as @ bs) s y c =
     bindE (inverse_ldj_loop as s y c) (\<lambda>s'.
     bindE (inverse_loop as y c) (\<lambda>y'. inverse_ldj_loop bs s' y' c))"
  by (induction as arbitrary: s y) (auto simp: bindE_def split: sum.splits)

lemma map2_add_assoc:
  "length s = n \<Longrightarrow> length d = n \<Longrightarrow> length e = n \<Longrightarrow>
   map2 (+) (map2 (+) s d) e = map2 (+) s (map2 (+) d (e::real list))"
  by (intro nth_equalityI) simp_all

lemma map2_add_neg:
  "length s = n \<Longrightarrow> length d = n \<Longrightarrow> length e = n \<Longrightarrow>
   map2 (+) (map2 (+) s (map uminus e)) (map uminus d) = map2 (+) s (map uminus (map2 (+) d (e::real list)))"
  by (intro nth_equalityI) simp_all

lemma map2_add_zero:
  "length s = n \<Longrightarrow> map2 (+) s (replicate n (0::real)) = s"
  by (intro nth_equalityI) simp_all

lemma flow_fin:
  assumes "\<forall>l\<in>set ls. \<not> validate_args l \<and> finite_layer l c"
  shows "\<exists>ys ds. length ys = length xs \<and> length ds = length xs
     \<and> forward_loop ls (fin_rows xs) c = Inr (fin_rows ys)
     \<and> inverse_loop (rev ls) (fin_rows ys) c = Inr (fin_rows xs)
     \<and> (\<forall>s. length s = length xs \<longrightarrow>
           forward_ldj_loop ls (fins s) (fin_rows xs) c = Inr (fins (map2 (+) s ds)))
     \<and> (\<forall>s. length s = length xs \<longrightarrow>
           inverse_ldj_loop (rev ls) (fins s) (fin_rows ys) c = Inr (fins (map2 (+) s (map uminus ds))))"
  using assms
proof (induction ls arbitrary: xs)
  case Nil
  show ?case
    by (intro exI [of _ xs] exI [of _ "replicate (length xs) 0"])
       (simp add: map2_add_zero)
next
  case (Cons l ls)
  from Cons.prems have l: "\<not> validate_args l" "finite_layer l c" by simp_all
  obtain y1 d1 where y1: "length y1 = length xs" "length d1 = length xs"
    "coupling_forward l (fin_rows xs) c = Inr (fin_rows y1)"
    "coupling_inverse l (fin_rows y1) c = Inr (fin_rows xs)"
    "coupling_forward_log_det_jacobian l (fin_rows xs) c = Inr (fins d1)"
    "coupling_inverse_log_det_jacobian l (fin_rows y1) c = Inr (fins (map uminus d1))"
    using layer_fin [OF l, of xs] by blast
  obtain ys ds where ys: "length ys = length y1" "length ds = length y1"
    "forward_loop ls (fin_rows y1) c = Inr (fin_rows ys)"
    "inverse_loop (rev ls) (fin_rows ys) c = Inr (fin_rows y1)"
    "\<And>s. length s = length y1 \<Longrightarrow>
       forward_ldj_loop ls (fins s) (fin_rows y1) c = Inr (fins (map2 (+) s ds))"
    "\<And>s. length s = length y1 \<Longrightarrow>
       inverse_ldj_loop (rev ls) (fins s) (fin_rows ys) c = Inr (fins (map2 (+) s (map uminus ds)))"
    using Cons.IH [of y1] Cons.prems by auto
  have f: "forward_ldj_loop (l # ls) (fins s) (fin_rows xs) c = Inr (fins (map2 (+) s (map2 (+) d1 ds)))"
    if "length s = length xs" for s
    using that y1 ys(1,2) ys(5) [of "map2 (+) s d1"]
    by (simp add: map2_fins map2_add_assoc [of _ "length xs"])
  have i: "inverse_ldj_loop (rev (l # ls)) (fins s) (fin_rows ys) c = Inr (fins (map2 (+) s (map uminus (map2 (+) d1 ds))))"
    if "length s = length xs" for s
    using that y1 ys(1,2,4) ys(6) [of s]
    by (simp add: inverse_ldj_loop_append map2_fins map_fins map2_add_neg [of _ "length xs"])
  show ?case
    using y1 ys(1-4) f i
    by (intro exI [of _ ys] exI [of _ "map2 (+) d1 ds"])
       (simp add: inverse_loop_append)
qed

lemma length_tensor_ops [simp]:
  "length (mul_mask x m) = length x" "length (mask_mul m x) = length x"
  "length (tensor_exp x) = length x" "length (col0 x) = length x" "length (col1 x) = length x"
  by (simp_all add: mul_mask_def mask_mul_def tensor_exp_def col0_def col1_def)

lemma broadcast_same: "length u = length v \<Longrightarrow> broadcast f u v = Inr (map2 f u v)"
  by (simp add: broadcast_def)

lemma stack_same: "length u = length v \<Longrightarrow> stack u v = Inr (zip u v)"
  by (simp add: stack_def)

lemma coupling_forward_returns:
  assumes "all_finite (forward_exp_scale l x c)" "\<not> validate_args l" "same_batch l x c"
  shows "\<exists>y. coupling_forward l x c = Inr y"
  using assms
  by (simp add: coupling_forward_def forward_exp_scale_def same_batch_def
      coupling_maybe_assert_valid_x_def check_numerics_def Let_def broadcast_same stack_same)

lemma coupling_inverse_returns:
  assumes "\<not> validate_args l" "same_batch l y c"
  shows "\<exists>x. coupling_inverse l y c = Inr x"
  using assms
  by (simp add: coupling_inverse_def same_batch_def coupling_maybe_assert_valid_y_def Let_def
      broadcast_same stack_same)

lemma bindE_not_numeric:
  "m \<noteq> Inl (InvalidArgumentError message) \<Longrightarrow>
   (\<And>v. f v \<noteq> Inl (InvalidArgumentError message)) \<Longrightarrow>
   bindE m f \<noteq> Inl (InvalidArgumentError message)"
  by (cases m) simp_all

lemma broadcast_not_numeric: "broadcast f u v \<noteq> Inl (InvalidArgumentError message)"
  by (simp add: broadcast_def)

lemma stack_not_numeric: "stack u v \<noteq> Inl (InvalidArgumentError message)"
  by (simp add: stack_def)

lemma finite_net_const: "finite_net (const_net (Fin a, Fin b)) c"
  by (simp add: finite_net_def const_net_def all_finite_def list_all_iff)





section \<open>Facts that do not depend on the values of the arithmetic\<close>

lemma stack_Inr: "stack u v = Inr y \<Longrightarrow> map fst y = u \<and> map snd y = v"
  by (auto simp: stack_def split: if_splits)

lemma bindE_eq_Inr: "bindE m f = Inr y \<longleftrightarrow> (\<exists>v. m = Inr v \<and> f v = Inr y)"
  by (cases m) simp_all

lemma tmul_one [simp]: "tmul a (Fin 1) = a"
  by (cases a) simp_all














lemma length_reduce_sum [simp]: "length (reduce_sum t) = length t"
  by (simp add: reduce_sum_def)


section \<open>The example layers\<close>

lemma example_layer_simps:
  "\<not> validate_args (example_layer par)" "finite_layer (example_layer par) c"
  "parity (example_layer par) = par"
  by (simp_all add: example_layer_def CouplingBijector_init_def finite_layer_def finite_net_const)

lemma example_flow_simps:
  "\<not> validate_args (example_flow n)" "finite_layers (layers (example_flow n)) c"
  by (simp_all add: example_flow_def RealNVPBijector_init_def build_def finite_layers_def
      list_all_iff finite_layer_def finite_net_const const_nets_def)

lemma example_layer_fns:
  "scale_fn (example_layer par) m c = map (\<lambda>_. (Fin (ln 2), Fin 7)) m"
  "translation_fn (example_layer par) m c = map (\<lambda>_. (Fin 3, Fin 5)) m"
  by (simp_all add: example_layer_def CouplingBijector_init_def const_net_def)

lemma inf_layer_simps:
  "validate_args (inf_layer par s v) = v" "parity (inf_layer par s v) = par"
  "scale_fn (inf_layer par s v) m c = map (\<lambda>_. s) m"
  "translation_fn (inf_layer par s v) m c = map (\<lambda>_. (Fin 0, Fin 0)) m"
  by (simp_all add: inf_layer_def CouplingBijector_init_def const_net_def)

lemmas eval_defs = coupling_forward_def coupling_inverse_def coupling_forward_log_det_jacobian_def
  coupling_inverse_log_det_jacobian_def coupling_maybe_assert_valid_x_def coupling_maybe_assert_valid_y_def
  mul_mask_def mask_mul_def tensor_exp_def check_numerics_def all_finite_def col0_def col1_def
  broadcast_def stack_def reduce_sum_def tsub_def

lemma upto_small: "[1..0::int] = []" "[1..1::int] = [1]" "[1..2::int] = [1, 2]"
  by (simp_all add: upto.simps)


section \<open>Layer parities of the flow\<close>

lemma length_build: "length (build n tw sw) = nat n"
  by (simp add: build_def)

lemma build_nth:
  assumes "1 \<le> i" "i \<le> n"
  shows "build n tw sw ! nat (i - 1) =
     \<lparr> event_ndims = 0, validate_args = False, name = ''coupling_'' @ str_int i,
       parity = [''even'', ''odd''] ! nat (i mod 2),
       translation_fn = tw i, scale_fn = sw i \<rparr>"
proof -
  have "nat (i - 1) < length [1..n]" using assms by simp
  moreover have "[1..n] ! nat (i - 1) = i" using assms by simp
  ultimately show ?thesis by (simp add: build_def)
qed

text \<open>
  Claim C1, as the code has it. \<^verbatim>\<open>build\<close> takes the parity of layer \<open>i\<close>, counted
  from 1, from \<^verbatim>\<open>("even", "odd")[i % 2]\<close>: a flow of \<open>n\<close> layers has \<open>n\<close> coupling
  layers, and layer \<open>i\<close> has parity \<^verbatim>\<open>"odd"\<close> when \<open>i\<close> is odd and \<^verbatim>\<open>"even"\<close> when \<open>i\<close>
  is even. The alternation starts at \<^verbatim>\<open>"odd"\<close> for layer 1.
\<close>

theorem build_parity_alternation:
  assumes "1 \<le> i" "i \<le> n"
  shows "length (layers (RealNVPBijector_init n tw sw v)) = nat n
    \<and> parity (layers (RealNVPBijector_init n tw sw v) ! nat (i - 1))
        = (if odd i then ''odd'' else ''even'')"
proof -
  have "i mod 2 = 0 \<or> i mod 2 = 1" by presburger
  then show ?thesis using build_nth [OF assms, of tw sw]
    by (auto simp: odd_iff_mod_2_eq_one RealNVPBijector_init_def length_build)
qed

theorem build_parity_alternation_witness:
  "(1::int) \<le> 2 \<and> (2::int) \<le> 3
   \<and> length (layers (example_flow 3)) = 3
   \<and> parity (layers (example_flow 3) ! 1) = ''even''"
  using build_parity_alternation [of 2 3 "const_nets (Fin 3, Fin 5)"
      "const_nets (Fin (ln 2), Fin 7) :: int \<Rightarrow> tensor \<Rightarrow> unit \<Rightarrow> tensor" False]
  by (simp add: example_flow_def)

text \<open>
  Claim C1, as the spec states it, fails at the first layer of the default two-layer flow:
  its parity is \<^verbatim>\<open>"odd"\<close>, not \<^verbatim>\<open>"even"\<close>.
\<close>

theorem build_first_layer_parity_counterexample:
  "parity (layers (example_flow 2) ! 0) \<noteq> ''even''"
  using build_nth [of 1 2 "const_nets (Fin 3, Fin 5)"
      "const_nets (Fin (ln 2), Fin 7) :: int \<Rightarrow> tensor \<Rightarrow> unit \<Rightarrow> tensor"]
  by (simp add: example_flow_def RealNVPBijector_init_def)

section \<open>The round trip in exact arithmetic\<close>

text \<open>
  In the exact arithmetic of this model the inverse transform undoes the forward transform
  on every finite batch, for layers whose scale and translation functions are finite-valued,
  and a forward pass through such layers retraces. The program computes in floating point,
  where \<^verbatim>\<open>tf.exp\<close> overflows on a finite scale and the two affine maps round: these
  lemmas describe the idealised transform, not what the program returns.
\<close>

lemma exact_roundtrip:
  "(\<not> validate_args l \<and> finite_layer l c \<and> all_finite x \<longrightarrow>
      (\<exists>y. coupling_forward l x c = Inr y \<and> coupling_inverse l y c = Inr x))
   \<and> (\<not> validate_args f \<and> finite_layers (layers f) c \<and> all_finite x \<longrightarrow>
      (\<exists>y. nvp_forward f x c = Inr y \<and> nvp_inverse f y c = Inr x))"
proof (intro conjI impI)
  assume h: "\<not> validate_args l \<and> finite_layer l c \<and> all_finite x"
  then have x: "x = fin_rows (reals x)" by (simp add: fin_rows_reals)
  from h layer_fin [of l c "reals x"]
  show "\<exists>y. coupling_forward l x c = Inr y \<and> coupling_inverse l y c = Inr x"
    unfolding x [symmetric] by blast
next
  assume h: "\<not> validate_args f \<and> finite_layers (layers f) c \<and> all_finite x"
  then have x: "x = fin_rows (reals x)" by (simp add: fin_rows_reals)
  from h flow_fin [of "layers f" c "reals x", unfolded finite_layers_def [symmetric] list_all_iff [symmetric]]
  obtain ys where "forward_loop (layers f) x c = Inr (fin_rows ys)"
    "inverse_loop (rev (layers f)) (fin_rows ys) c = Inr x"
    unfolding x [symmetric] by blast
  with h show "\<exists>y. nvp_forward f x c = Inr y \<and> nvp_inverse f y c = Inr x"
    by (simp add: nvp_forward_def nvp_inverse_def nvp_maybe_assert_valid_x_def
        nvp_maybe_assert_valid_y_def)
qed

lemma exact_forward_scale:
  assumes "finite_layer l c" "all_finite x"
  shows "all_finite (forward_scale l x c) \<and> length (forward_scale l x c) = length x"
proof -
  obtain p q where m: "get_mask l = (Fin p, Fin q)"
    using get_mask_even [of l] get_mask_not_even [of l] by (cases "parity l = ''even''") auto
  have x: "x = fin_rows (reals x)" using assms(2) by (simp add: fin_rows_reals)
  obtain ss ts where st:
    "scale_fn l (fin_rows (map (\<lambda>(a, b). (a * p, b * q)) (reals x))) c = fin_rows ss"
    "length ss = length (map (\<lambda>(a, b). (a * p, b * q)) (reals x))"
    using finite_layerD [OF assms(1), of "map (\<lambda>(a, b). (a * p, b * q)) (reals x)"] by auto
  have "forward_scale l (fin_rows (reals x)) c = fin_rows (map (\<lambda>(a, b). (p * a, q * b)) ss)"
    using st(1) by (simp add: forward_scale_def m mul_mask_fin mask_mul_fin)
  then show ?thesis using st(2) x by (metis all_finite_fin_rows length_fin_rows length_map length_reals)
qed

lemma exact_layer_pass:
  assumes "\<not> validate_args l" "finite_layer l c" "all_finite x"
  shows "\<exists>y. coupling_forward l x c = Inr y \<and> all_finite y \<and> coupling_inverse l y c = Inr x"
proof -
  have x: "x = fin_rows (reals x)" using assms(3) by (simp add: fin_rows_reals)
  from layer_fin [OF assms(1,2), of "reals x"]
  obtain ys where "coupling_forward l x c = Inr (fin_rows ys)"
    "coupling_inverse l (fin_rows ys) c = Inr x"
    unfolding x [symmetric] by blast
  then show ?thesis by (intro exI [of _ "fin_rows ys"]) simp
qed

lemma exact_pass_retraces:
  assumes "all_finite x"
    "\<forall>l\<in>set ls. \<not> validate_args l \<and> finite_layer l c
        \<and> (parity l = ''even'' \<or> parity l = ''odd'')"
  shows "pass_retraces ls x c"
  using assms
proof (induction ls arbitrary: x)
  case Nil
  show ?case by simp
next
  case (Cons l ls)
  then have l: "\<not> validate_args l" "finite_layer l c" "parity l = ''even'' \<or> parity l = ''odd''"
    by simp_all
  obtain y where y: "coupling_forward l x c = Inr y" "all_finite y" "coupling_inverse l y c = Inr x"
    using exact_layer_pass [OF l(1,2) Cons.prems(1)] by blast
  have "pass_retraces ls y c" using Cons.IH [OF y(2)] Cons.prems(2) by simp
  then show ?case
    using y l(3) exact_forward_scale [OF l(2) Cons.prems(1)] by simp
qed

section \<open>Cancellation of the log-determinants\<close>




section \<open>The log-determinant of a coupling layer\<close>

lemma finite_layer_row:
  assumes "finite_layer l c"
  obtains s0 s1 t0 t1 where "scale_fn l [(Fin p, Fin q)] c = [(Fin s0, Fin s1)]"
    "translation_fn l [(Fin p, Fin q)] c = [(Fin t0, Fin t1)]"
proof -
  obtain ss ts where st: "scale_fn l (fin_rows [(p, q)]) c = fin_rows ss" "length ss = 1"
    "translation_fn l (fin_rows [(p, q)]) c = fin_rows ts" "length ts = 1"
    using finite_layerD [OF assms, of "[(p, q)]"] by auto
  obtain s where s: "ss = [s]" using st(2) by (cases ss) auto
  obtain t where t: "ts = [t]" using st(4) by (cases ts) auto
  show ?thesis
    using that [of "fst s" "snd s" "fst t" "snd t"] st(1,3) s t
    by (simp add: fin_rows_def split_def)
qed

lemma forward_row_even:
  assumes "parity l = ''even''" "\<not> validate_args l" "finite_layer l c"
  shows "\<exists>s t. (\<forall>b. coupling_forward l [(Fin a, Fin b)] c = Inr [(Fin a, Fin (b * exp s + t))])
           \<and> (\<forall>b. coupling_forward_log_det_jacobian l [(Fin a, Fin b)] c = Inr [Fin s])"
proof -
  obtain s0 s1 t0 t1 where st: "scale_fn l [(Fin a, Fin 0)] c = [(Fin s0, Fin s1)]"
    "translation_fn l [(Fin a, Fin 0)] c = [(Fin t0, Fin t1)]"
    using finite_layer_row [OF assms(3)] by metis
  have "coupling_forward l [(Fin a, Fin b)] c = Inr [(Fin a, Fin (b * exp s0 + t0))]" for b
    using assms(1,2) st
    by (simp add: coupling_forward_def coupling_maybe_assert_valid_x_def get_mask_even mul_mask_def mask_mul_def
        tensor_exp_def check_numerics_def all_finite_def col0_def col1_def broadcast_def stack_def)
  moreover have "coupling_forward_log_det_jacobian l [(Fin a, Fin b)] c = Inr [Fin s0]" for b
    using assms(1,2) st
    by (simp add: coupling_forward_log_det_jacobian_def coupling_maybe_assert_valid_x_def get_mask_even
        mul_mask_def mask_mul_def reduce_sum_def)
  ultimately show ?thesis by blast
qed

lemma forward_row_odd:
  assumes "parity l = ''odd''" "\<not> validate_args l" "finite_layer l c"
  shows "\<exists>s t. (\<forall>a. coupling_forward l [(Fin a, Fin b)] c = Inr [(Fin (a * exp s + t), Fin b)])
           \<and> (\<forall>a. coupling_forward_log_det_jacobian l [(Fin a, Fin b)] c = Inr [Fin s])"
proof -
  have ne: "parity l \<noteq> ''even''" using assms(1) by simp
  obtain s0 s1 t0 t1 where st: "scale_fn l [(Fin 0, Fin b)] c = [(Fin s0, Fin s1)]"
    "translation_fn l [(Fin 0, Fin b)] c = [(Fin t0, Fin t1)]"
    using finite_layer_row [OF assms(3)] by metis
  have "coupling_forward l [(Fin a, Fin b)] c = Inr [(Fin (a * exp s1 + t1), Fin b)]" for a
    using assms(1,2) st
    by (simp add: coupling_forward_def coupling_maybe_assert_valid_x_def get_mask_not_even [OF ne] mul_mask_def
        mask_mul_def tensor_exp_def check_numerics_def all_finite_def col0_def col1_def
        broadcast_def stack_def)
  moreover have "coupling_forward_log_det_jacobian l [(Fin a, Fin b)] c = Inr [Fin s1]" for a
    using assms(1,2) st
    by (simp add: coupling_forward_log_det_jacobian_def coupling_maybe_assert_valid_x_def
        get_mask_not_even [OF ne] mul_mask_def mask_mul_def reduce_sum_def)
  ultimately show ?thesis by blast
qed

text \<open>
  Claim C4. With validation off and scale and translation functions computed in exact
  arithmetic at \<open>c\<close>, the forward log-det-Jacobian is the sum over each row of the masked
  scale. On a single sample \<open>(a, b)\<close> the forward transform returns a finite sample, and
  the log-det-Jacobian is the log-determinant of the Jacobian of the forward transform:
  with parity \<^verbatim>\<open>"even"\<close> coordinate 0 is returned as it is (partial derivatives 1
  and 0) and coordinate 1 has the partial derivative \<open>exp ldj\<close> in itself, so the
  Jacobian is triangular with determinant \<open>exp ldj\<close> whatever the remaining entry is;
  with parity \<^verbatim>\<open>"odd"\<close> the coordinates change places.
\<close>

theorem forward_log_det_is_log_det_jacobian:
  assumes "\<not> validate_args l" "finite_layer l c"
  shows "coupling_forward_log_det_jacobian l x c =
           Inr (reduce_sum (mask_mul (get_mask l) (scale_fn l (mul_mask x (get_mask l)) c)))
    \<and> (parity l = ''even'' \<longrightarrow>
         (\<exists>ldj. coupling_forward_log_det_jacobian l [(Fin a, Fin b)] c = Inr [Fin ldj]
            \<and> coupling_forward l [(Fin a, Fin b)] c
                = Inr [(Fin (fst (forward_real l c a b)), Fin (snd (forward_real l c a b)))]
            \<and> ((\<lambda>u. fst (forward_real l c u b)) has_real_derivative 1) (at a)
            \<and> ((\<lambda>v. fst (forward_real l c a v)) has_real_derivative 0) (at b)
            \<and> ((\<lambda>v. snd (forward_real l c a v)) has_real_derivative exp ldj) (at b)
            \<and> (\<forall>j10. ln \<bar>det2 1 0 j10 (exp ldj)\<bar> = ldj)))
    \<and> (parity l = ''odd'' \<longrightarrow>
         (\<exists>ldj. coupling_forward_log_det_jacobian l [(Fin a, Fin b)] c = Inr [Fin ldj]
            \<and> coupling_forward l [(Fin a, Fin b)] c
                = Inr [(Fin (fst (forward_real l c a b)), Fin (snd (forward_real l c a b)))]
            \<and> ((\<lambda>u. fst (forward_real l c u b)) has_real_derivative exp ldj) (at a)
            \<and> ((\<lambda>u. snd (forward_real l c u b)) has_real_derivative 0) (at a)
            \<and> ((\<lambda>v. snd (forward_real l c a v)) has_real_derivative 1) (at b)
            \<and> (\<forall>j01. ln \<bar>det2 (exp ldj) j01 0 1\<bar> = ldj)))"
proof (intro conjI impI)
  show "coupling_forward_log_det_jacobian l x c =
           Inr (reduce_sum (mask_mul (get_mask l) (scale_fn l (mul_mask x (get_mask l)) c)))"
    using assms(1) by (simp add: coupling_forward_log_det_jacobian_def coupling_maybe_assert_valid_x_def Let_def)
next
  assume par: "parity l = ''even''"
  obtain s t where st: "\<And>b. coupling_forward l [(Fin a, Fin b)] c = Inr [(Fin a, Fin (b * exp s + t))]"
      "\<And>b. coupling_forward_log_det_jacobian l [(Fin a, Fin b)] c = Inr [Fin s]"
    using forward_row_even [OF par assms, of a] by blast
  have fst_id: "fst (forward_real l c u v) = u" for u v
    using forward_row_even [OF par assms, of u] by (auto simp: forward_real_def)
  have snd_eq: "snd (forward_real l c a v) = v * exp s + t" for v
    using st(1) by (simp add: forward_real_def)
  show "\<exists>ldj. coupling_forward_log_det_jacobian l [(Fin a, Fin b)] c = Inr [Fin ldj]
            \<and> coupling_forward l [(Fin a, Fin b)] c
                = Inr [(Fin (fst (forward_real l c a b)), Fin (snd (forward_real l c a b)))]
            \<and> ((\<lambda>u. fst (forward_real l c u b)) has_real_derivative 1) (at a)
            \<and> ((\<lambda>v. fst (forward_real l c a v)) has_real_derivative 0) (at b)
            \<and> ((\<lambda>v. snd (forward_real l c a v)) has_real_derivative exp ldj) (at b)
            \<and> (\<forall>j10. ln \<bar>det2 1 0 j10 (exp ldj)\<bar> = ldj)"
    unfolding fst_id snd_eq
    by (intro exI [of _ s] conjI st(2)) (auto intro!: derivative_eq_intros simp: det2_def st(1))
next
  assume par: "parity l = ''odd''"
  obtain s t where st: "\<And>a. coupling_forward l [(Fin a, Fin b)] c = Inr [(Fin (a * exp s + t), Fin b)]"
      "\<And>a. coupling_forward_log_det_jacobian l [(Fin a, Fin b)] c = Inr [Fin s]"
    using forward_row_odd [OF par assms, of b] by blast
  have snd_id: "snd (forward_real l c u v) = v" for u v
    using forward_row_odd [OF par assms, of v] by (auto simp: forward_real_def)
  have fst_eq: "fst (forward_real l c u b) = u * exp s + t" for u
    using st(1) by (simp add: forward_real_def)
  show "\<exists>ldj. coupling_forward_log_det_jacobian l [(Fin a, Fin b)] c = Inr [Fin ldj]
            \<and> coupling_forward l [(Fin a, Fin b)] c
                = Inr [(Fin (fst (forward_real l c a b)), Fin (snd (forward_real l c a b)))]
            \<and> ((\<lambda>u. fst (forward_real l c u b)) has_real_derivative exp ldj) (at a)
            \<and> ((\<lambda>u. snd (forward_real l c u b)) has_real_derivative 0) (at a)
            \<and> ((\<lambda>v. snd (forward_real l c a v)) has_real_derivative 1) (at b)
            \<and> (\<forall>j01. ln \<bar>det2 (exp ldj) j01 0 1\<bar> = ldj)"
    unfolding snd_id fst_eq
    by (intro exI [of _ s] conjI st(2)) (auto intro!: derivative_eq_intros simp: det2_def st(1))
qed

theorem forward_log_det_is_log_det_jacobian_witness:
  "\<not> validate_args (example_layer ''even'') \<and> finite_layer (example_layer ''even'') ()
   \<and> (\<exists>ldj. coupling_forward_log_det_jacobian (example_layer ''even'') [(Fin 1, Fin 2)] () = Inr [Fin ldj]
        \<and> ((\<lambda>v. snd (forward_real (example_layer ''even'') () 1 v))
              has_real_derivative exp ldj) (at 2))
   \<and> \<not> validate_args (example_layer ''odd'') \<and> finite_layer (example_layer ''odd'') ()
   \<and> (\<exists>ldj. coupling_forward_log_det_jacobian (example_layer ''odd'') [(Fin 1, Fin 2)] () = Inr [Fin ldj]
        \<and> ((\<lambda>u. fst (forward_real (example_layer ''odd'') () u 2))
              has_real_derivative exp ldj) (at 1))"
proof -
  note E = forward_log_det_is_log_det_jacobian [of "example_layer ''even''" "()" "[(Fin 1, Fin 2)]" 1 2,
      OF example_layer_simps(1,2), THEN conjunct2, THEN conjunct1, THEN mp, OF example_layer_simps(3)]
  note O = forward_log_det_is_log_det_jacobian [of "example_layer ''odd''" "()" "[(Fin 1, Fin 2)]" 1 2,
      OF example_layer_simps(1,2), THEN conjunct2, THEN conjunct2, THEN mp, OF example_layer_simps(3)]
  from E O show ?thesis
    by (simp add: example_layer_simps) blast
qed

section \<open>Scenarios\<close>

text \<open>
  Claim C5. The batch of the one sample \<open>[1.0, 2.0]\<close> through one layer of parity
  \<^verbatim>\<open>"even"\<close>: with scale and translation functions that return zeros the forward
  transform returns \<open>[1.0, 2.0]\<close> and the log-det-Jacobian is 0; with a scale function
  that returns \<open>[log 2, log 2]\<close> the forward transform returns \<open>[1.0, 4.0]\<close> and the
  log-det-Jacobian is \<open>log 2\<close>.
\<close>

theorem scenario_identity_and_doubling:
  "coupling_forward (CouplingBijector_init ''even'' (const_net (Fin 0, Fin 0)) (const_net (Fin 0, Fin 0)) False)
      [(Fin 1, Fin 2)] c = Inr [(Fin 1, Fin 2)]
   \<and> coupling_forward_log_det_jacobian
        (CouplingBijector_init ''even'' (const_net (Fin 0, Fin 0)) (const_net (Fin 0, Fin 0)) False)
        [(Fin 1, Fin 2)] c = Inr [Fin 0]
   \<and> coupling_forward (CouplingBijector_init ''even'' (const_net (Fin 0, Fin 0))
        (const_net (Fin (ln 2), Fin (ln 2))) False) [(Fin 1, Fin 2)] c = Inr [(Fin 1, Fin 4)]
   \<and> coupling_forward_log_det_jacobian (CouplingBijector_init ''even'' (const_net (Fin 0, Fin 0))
        (const_net (Fin (ln 2), Fin (ln 2))) False) [(Fin 1, Fin 2)] c = Inr [Fin (ln 2)]"
  by (simp add: CouplingBijector_init_def const_net_def coupling_forward_def coupling_forward_log_det_jacobian_def
      coupling_maybe_assert_valid_x_def get_mask_even mul_mask_def mask_mul_def tensor_exp_def
      check_numerics_def all_finite_def col0_def col1_def broadcast_def stack_def reduce_sum_def)

section \<open>Order of composition\<close>

text \<open>
  Claim C6. With validation off, the forward transform of a flow of two layers is the
  forward transform of layer 1 followed by that of layer 2, and its inverse transform is the
  inverse of layer 2 followed by that of layer 1. In general a flow whose layers are those
  of \<open>g\<close> followed by those of \<open>h\<close> runs \<open>g\<close> then \<open>h\<close> forward and \<open>h\<close> then \<open>g\<close>
  backward, and a flow of one layer is that layer.
\<close>

theorem flow_composition_order:
  assumes "\<not> validate_args f"
  shows "(layers f = [l1, l2] \<longrightarrow>
            nvp_forward f x c = bindE (coupling_forward l1 x c) (\<lambda>z. coupling_forward l2 z c)
          \<and> nvp_inverse f y c = bindE (coupling_inverse l2 y c) (\<lambda>z. coupling_inverse l1 z c))
    \<and> (\<not> validate_args g \<and> \<not> validate_args h \<and> layers f = layers g @ layers h \<longrightarrow>
            nvp_forward f x c = bindE (nvp_forward g x c) (\<lambda>z. nvp_forward h z c)
          \<and> nvp_inverse f y c = bindE (nvp_inverse h y c) (\<lambda>z. nvp_inverse g z c))
    \<and> (layers f = [l1] \<longrightarrow> nvp_forward f x c = coupling_forward l1 x c \<and> nvp_inverse f y c = coupling_inverse l1 y c)"
proof -
  have single: "bindE m Inr = m" for m :: "error + tensor"
    by (cases m) simp_all
  show ?thesis using assms
    by (auto simp: nvp_forward_def nvp_inverse_def nvp_maybe_assert_valid_x_def
        nvp_maybe_assert_valid_y_def forward_loop_append inverse_loop_append single
        cong: if_cong)
qed

theorem flow_composition_order_witness:
  "\<not> validate_args (example_flow 2)
   \<and> layers (example_flow 2) = [layers (example_flow 2) ! 0, layers (example_flow 2) ! 1]
   \<and> nvp_forward (example_flow 2) [(Fin 1, Fin 2)] ()
       = bindE (coupling_forward (layers (example_flow 2) ! 0) [(Fin 1, Fin 2)] ())
           (\<lambda>z. coupling_forward (layers (example_flow 2) ! 1) z ())
   \<and> nvp_inverse (example_flow 2) [(Fin 1, Fin 2)] ()
       = bindE (coupling_inverse (layers (example_flow 2) ! 1) [(Fin 1, Fin 2)] ())
           (\<lambda>z. coupling_inverse (layers (example_flow 2) ! 0) z ())
   \<and> \<not> validate_args (example_flow 1)
   \<and> \<not> validate_args ((example_flow 2)\<lparr>layers := tl (layers (example_flow 2))\<rparr>)
   \<and> layers (example_flow 2)
       = layers (example_flow 1) @ layers ((example_flow 2)\<lparr>layers := tl (layers (example_flow 2))\<rparr>)
   \<and> nvp_forward (example_flow 2) [(Fin 1, Fin 2)] ()
       = bindE (nvp_forward (example_flow 1) [(Fin 1, Fin 2)] ())
           (\<lambda>z. nvp_forward ((example_flow 2)\<lparr>layers := tl (layers (example_flow 2))\<rparr>) z ())
   \<and> nvp_inverse (example_flow 2) [(Fin 1, Fin 2)] ()
       = bindE (nvp_inverse ((example_flow 2)\<lparr>layers := tl (layers (example_flow 2))\<rparr>) [(Fin 1, Fin 2)] ())
           (\<lambda>z. nvp_inverse (example_flow 1) z ())
   \<and> layers (example_flow 1) = [layers (example_flow 1) ! 0]
   \<and> nvp_forward (example_flow 1) [(Fin 1, Fin 2)] ()
       = coupling_forward (layers (example_flow 1) ! 0) [(Fin 1, Fin 2)] ()"
proof -
  have l2: "layers (example_flow 2) = [layers (example_flow 2) ! 0, layers (example_flow 2) ! 1]"
    by (simp add: example_flow_def RealNVPBijector_init_def build_def upto_small)
  have l1: "layers (example_flow 1) = [layers (example_flow 1) ! 0]"
    by (simp add: example_flow_def RealNVPBijector_init_def build_def upto_small)
  have v: "\<not> validate_args ((example_flow 2)\<lparr>layers := tl (layers (example_flow 2))\<rparr>)"
    using example_flow_simps(1) by simp
  have l0: "layers (example_flow 2)
       = layers (example_flow 1) @ layers ((example_flow 2)\<lparr>layers := tl (layers (example_flow 2))\<rparr>)"
    by (simp add: example_flow_def RealNVPBijector_init_def build_def upto_small)
  note a = flow_composition_order [OF example_flow_simps(1), of 2 "layers (example_flow 2) ! 0"
      "layers (example_flow 2) ! 1" "[(Fin 1, Fin 2)]" "()" "[(Fin 1, Fin 2)]",
      THEN conjunct1, THEN mp, OF l2]
  note b = flow_composition_order [OF example_flow_simps(1), of 2 _ _ "[(Fin 1, Fin 2)]" "()"
      "[(Fin 1, Fin 2)]" "example_flow 1" "(example_flow 2)\<lparr>layers := tl (layers (example_flow 2))\<rparr>",
      THEN conjunct2, THEN conjunct1, THEN mp, OF conjI [OF example_flow_simps(1) conjI [OF v l0]]]
  note c = flow_composition_order [OF example_flow_simps(1), of 1 "layers (example_flow 1) ! 0" _
      "[(Fin 1, Fin 2)]" "()", THEN conjunct2, THEN conjunct2, THEN mp, OF l1]
  show ?thesis
    using a b c l2 l1 l0 v example_flow_simps(1) by blast
qed

section \<open>The unchanged half\<close>

text \<open>
  Claim C7. Whenever the forward or the inverse transform of a coupling layer returns, the
  column that the layer does not transform is the input's: column 1 with parity
  \<^verbatim>\<open>"odd"\<close>, column 0 with parity \<^verbatim>\<open>"even"\<close>. Both transforms return when
  validation is off and the scale and translation functions return one row for each input
  row (and, forward, \<^verbatim>\<open>tf.exp(scale)\<close> is finite).
\<close>

theorem unchanged_half_passes_through:
  "(coupling_forward l x c = Inr y \<and> parity l = ''odd'' \<longrightarrow> col1 y = col1 x)
   \<and> (coupling_forward l x c = Inr y \<and> parity l = ''even'' \<longrightarrow> col0 y = col0 x)
   \<and> (coupling_inverse l y c = Inr x' \<and> parity l = ''odd'' \<longrightarrow> col1 x' = col1 y)
   \<and> (coupling_inverse l y c = Inr x' \<and> parity l = ''even'' \<longrightarrow> col0 x' = col0 y)
   \<and> (all_finite (forward_exp_scale l x c) \<and> \<not> validate_args l \<and> same_batch l x c \<longrightarrow>
        (\<exists>y. coupling_forward l x c = Inr y))
   \<and> (\<not> validate_args l \<and> same_batch l y c \<longrightarrow> (\<exists>x. coupling_inverse l y c = Inr x))"
proof -
  have "coupling_forward l x c = Inr y \<Longrightarrow> parity l = ''odd'' \<Longrightarrow> col1 y = col1 x"
    by (auto simp: coupling_forward_def bindE_eq_Inr Let_def col1_def dest!: stack_Inr)
  moreover have "coupling_forward l x c = Inr y \<Longrightarrow> parity l = ''even'' \<Longrightarrow> col0 y = col0 x"
    by (auto simp: coupling_forward_def bindE_eq_Inr Let_def col0_def dest!: stack_Inr)
  moreover have "coupling_inverse l y c = Inr x' \<Longrightarrow> parity l = ''odd'' \<Longrightarrow> col1 x' = col1 y"
    by (auto simp: coupling_inverse_def bindE_eq_Inr Let_def col1_def dest!: stack_Inr)
  moreover have "coupling_inverse l y c = Inr x' \<Longrightarrow> parity l = ''even'' \<Longrightarrow> col0 x' = col0 y"
    by (auto simp: coupling_inverse_def bindE_eq_Inr Let_def col0_def dest!: stack_Inr)
  ultimately show ?thesis
    using coupling_forward_returns [of l x c] coupling_inverse_returns [of l y c] by blast
qed

theorem unchanged_half_passes_through_witness:
  "coupling_forward (example_layer ''odd'') [(Fin 1, Fin 2)] () = Inr [(Fin (exp 7 + 5), Fin 2)]
   \<and> parity (example_layer ''odd'') = ''odd''
   \<and> col1 [(Fin (exp 7 + 5), Fin 2)] = col1 [(Fin 1, Fin 2)]
   \<and> coupling_forward (example_layer ''even'') [(Fin 1, Fin 2)] () = Inr [(Fin 1, Fin 7)]
   \<and> parity (example_layer ''even'') = ''even''
   \<and> col0 [(Fin 1, Fin 7)] = col0 [(Fin 1, Fin 2)]
   \<and> coupling_inverse (example_layer ''odd'') [(Fin (exp 7 + 5), Fin 2)] () = Inr [(Fin 1, Fin 2)]
   \<and> col1 [(Fin 1, Fin 2)] = col1 [(Fin (exp 7 + 5), Fin 2)]
   \<and> coupling_inverse (example_layer ''even'') [(Fin 1, Fin 7)] () = Inr [(Fin 1, Fin 2)]
   \<and> col0 [(Fin 1, Fin 2)] = col0 [(Fin 1, Fin 7)]"
proof -
  have fo: "coupling_forward (example_layer ''odd'') [(Fin 1, Fin 2)] () = Inr [(Fin (exp 7 + 5), Fin 2)]"
    by (simp add: eval_defs example_layer_simps example_layer_fns get_mask_not_even)
  have fe: "coupling_forward (example_layer ''even'') [(Fin 1, Fin 2)] () = Inr [(Fin 1, Fin 7)]"
    by (simp add: eval_defs example_layer_simps example_layer_fns get_mask_even)
  have io: "coupling_inverse (example_layer ''odd'') [(Fin (exp 7 + 5), Fin 2)] () = Inr [(Fin 1, Fin 2)]"
    by (simp add: eval_defs example_layer_simps example_layer_fns get_mask_not_even exp_minus)
  have ie: "coupling_inverse (example_layer ''even'') [(Fin 1, Fin 7)] () = Inr [(Fin 1, Fin 2)]"
    by (simp add: eval_defs example_layer_simps example_layer_fns get_mask_even exp_minus)
  note o = unchanged_half_passes_through [of "example_layer ''odd''" "[(Fin 1, Fin 2)]" "()"
        "[(Fin (exp 7 + 5), Fin 2)]" "[(Fin 1, Fin 2)]"]
  note e = unchanged_half_passes_through [of "example_layer ''even''" "[(Fin 1, Fin 2)]" "()"
        "[(Fin 1, Fin 7)]" "[(Fin 1, Fin 2)]"]
  have p: "parity (example_layer ''odd'') = ''odd''" "parity (example_layer ''even'') = ''even''"
    by (simp_all add: example_layer_simps)
  from o e fo fe io ie p show ?thesis by blast
qed

section \<open>Numeric guard and validation hooks\<close>

text \<open>
  Claim C8. When \<^verbatim>\<open>tf.exp(scale)\<close> has an element that is NaN or Inf, the forward
  transform of a coupling layer returns no value: it raises, with validation off the error
  of \<^verbatim>\<open>tf.check_numerics\<close>. When every element is finite, validation is off and the scale
  and translation functions return one row for each input row, it returns a value.
\<close>

theorem forward_numeric_guard:
  "(\<not> all_finite (forward_exp_scale l x c) \<longrightarrow>
       (\<exists>e. coupling_forward l x c = Inl e)
     \<and> (\<not> validate_args l \<longrightarrow>
          coupling_forward l x c = Inl (InvalidArgumentError ''tf.exp(scale) contains NaNs or Infs.'')))
   \<and> (all_finite (forward_exp_scale l x c) \<and> \<not> validate_args l \<and> same_batch l x c \<longrightarrow>
       (\<exists>y. coupling_forward l x c = Inr y))"
proof (intro conjI impI)
  assume "\<not> all_finite (forward_exp_scale l x c)"
  then show "\<exists>e. coupling_forward l x c = Inl e"
    by (simp add: coupling_forward_def forward_exp_scale_def coupling_maybe_assert_valid_x_def
        check_numerics_def Let_def)
next
  assume "\<not> all_finite (forward_exp_scale l x c)" "\<not> validate_args l"
  then show "coupling_forward l x c = Inl (InvalidArgumentError ''tf.exp(scale) contains NaNs or Infs.'')"
    by (simp add: coupling_forward_def forward_exp_scale_def coupling_maybe_assert_valid_x_def
        check_numerics_def Let_def)
next
  assume "all_finite (forward_exp_scale l x c) \<and> \<not> validate_args l \<and> same_batch l x c"
  then show "\<exists>y. coupling_forward l x c = Inr y"
    by (simp add: coupling_forward_returns)
qed

theorem forward_numeric_guard_witness:
  "\<not> all_finite (forward_exp_scale (inf_layer ''even'' (PInf, Fin 0) False) [(Fin 1, Fin 2)] ())
   \<and> \<not> validate_args (inf_layer ''even'' (PInf, Fin 0) False)
   \<and> coupling_forward (inf_layer ''even'' (PInf, Fin 0) False) [(Fin 1, Fin 2)] ()
        = Inl (InvalidArgumentError ''tf.exp(scale) contains NaNs or Infs.'')
   \<and> all_finite (forward_exp_scale (example_layer ''even'') [(Fin 1, Fin 2)] ())
   \<and> \<not> validate_args (example_layer ''even'')
   \<and> same_batch (example_layer ''even'') [(Fin 1, Fin 2)] ()
   \<and> (\<exists>y. coupling_forward (example_layer ''even'') [(Fin 1, Fin 2)] () = Inr y)"
proof -
  have a: "\<not> all_finite (forward_exp_scale (inf_layer ''even'' (PInf, Fin 0) False) [(Fin 1, Fin 2)] ())"
    "\<not> validate_args (inf_layer ''even'' (PInf, Fin 0) False)"
    by (simp_all add: forward_exp_scale_def eval_defs inf_layer_simps get_mask_even)
  have b: "all_finite (forward_exp_scale (example_layer ''even'') [(Fin 1, Fin 2)] ())"
    "same_batch (example_layer ''even'') [(Fin 1, Fin 2)] ()"
    "\<not> validate_args (example_layer ''even'')"
    by (simp_all add: forward_exp_scale_def same_batch_def eval_defs example_layer_simps
        example_layer_fns get_mask_even)
  note i = forward_numeric_guard [of "inf_layer ''even'' (PInf, Fin 0) False" "[(Fin 1, Fin 2)]" "()"]
  note f = forward_numeric_guard [of "example_layer ''even''" "[(Fin 1, Fin 2)]" "()"]
  from i f a b show ?thesis by blast
qed

text \<open>
  Claim C9. With \<^verbatim>\<open>validate_args\<close> false the validation hooks of the coupling layer and
  of the flow return their argument. With \<^verbatim>\<open>validate_args\<close> true the four methods of the
  layer and of the flow raise \<^verbatim>\<open>NotImplementedError\<close> and compute nothing.
\<close>

theorem validation_hooks:
  "(\<not> validate_args l \<longrightarrow> coupling_maybe_assert_valid_x l x = Inr x \<and> coupling_maybe_assert_valid_y l x = Inr x)
   \<and> (\<not> validate_args f \<longrightarrow>
        nvp_maybe_assert_valid_x f x = Inr x \<and> nvp_maybe_assert_valid_y f x = Inr x)
   \<and> (validate_args l \<longrightarrow>
        coupling_forward l x c = Inl (NotImplementedError ''_maybe_assert_valid_x'')
      \<and> coupling_forward_log_det_jacobian l x c = Inl (NotImplementedError ''_maybe_assert_valid_x'')
      \<and> coupling_inverse l x c = Inl (NotImplementedError ''_maybe_assert_valid_y'')
      \<and> coupling_inverse_log_det_jacobian l x c = Inl (NotImplementedError ''_maybe_assert_valid_y''))
   \<and> (validate_args f \<longrightarrow>
        nvp_forward f x c = Inl (NotImplementedError ''_maybe_assert_valid_x'')
      \<and> nvp_forward_log_det_jacobian f x c = Inl (NotImplementedError ''_maybe_assert_valid_x'')
      \<and> nvp_inverse f x c = Inl (NotImplementedError ''_maybe_assert_valid_y'')
      \<and> nvp_inverse_log_det_jacobian f x c = Inl (NotImplementedError ''_maybe_assert_valid_y''))"
  by (simp add: coupling_maybe_assert_valid_x_def coupling_maybe_assert_valid_y_def nvp_maybe_assert_valid_x_def
      nvp_maybe_assert_valid_y_def coupling_forward_def coupling_inverse_def coupling_forward_log_det_jacobian_def
      coupling_inverse_log_det_jacobian_def nvp_forward_def nvp_inverse_def
      nvp_forward_log_det_jacobian_def nvp_inverse_log_det_jacobian_def)

theorem validation_hooks_witness:
  "\<not> validate_args (example_layer ''even'')
   \<and> coupling_maybe_assert_valid_x (example_layer ''even'') [(Fin 1, Fin 2)] = Inr [(Fin 1, Fin 2)]
   \<and> coupling_maybe_assert_valid_y (example_layer ''even'') [(Fin 1, Fin 2)] = Inr [(Fin 1, Fin 2)]
   \<and> \<not> validate_args (example_flow 2)
   \<and> nvp_maybe_assert_valid_x (example_flow 2) [(Fin 1, Fin 2)] = Inr [(Fin 1, Fin 2)]
   \<and> nvp_maybe_assert_valid_y (example_flow 2) [(Fin 1, Fin 2)] = Inr [(Fin 1, Fin 2)]
   \<and> validate_args (inf_layer ''even'' (Fin 0, Fin 0) True)
   \<and> coupling_forward (inf_layer ''even'' (Fin 0, Fin 0) True) [(Fin 1, Fin 2)] ()
        = Inl (NotImplementedError ''_maybe_assert_valid_x'')
   \<and> coupling_forward_log_det_jacobian (inf_layer ''even'' (Fin 0, Fin 0) True) [(Fin 1, Fin 2)] ()
        = Inl (NotImplementedError ''_maybe_assert_valid_x'')
   \<and> coupling_inverse (inf_layer ''even'' (Fin 0, Fin 0) True) [(Fin 1, Fin 2)] ()
        = Inl (NotImplementedError ''_maybe_assert_valid_y'')
   \<and> coupling_inverse_log_det_jacobian (inf_layer ''even'' (Fin 0, Fin 0) True) [(Fin 1, Fin 2)] ()
        = Inl (NotImplementedError ''_maybe_assert_valid_y'')
   \<and> validate_args ((example_flow 2)\<lparr>validate_args := True\<rparr>)
   \<and> nvp_forward ((example_flow 2)\<lparr>validate_args := True\<rparr>) [(Fin 1, Fin 2)] ()
        = Inl (NotImplementedError ''_maybe_assert_valid_x'')
   \<and> nvp_forward_log_det_jacobian ((example_flow 2)\<lparr>validate_args := True\<rparr>) [(Fin 1, Fin 2)] ()
        = Inl (NotImplementedError ''_maybe_assert_valid_x'')
   \<and> nvp_inverse ((example_flow 2)\<lparr>validate_args := True\<rparr>) [(Fin 1, Fin 2)] ()
        = Inl (NotImplementedError ''_maybe_assert_valid_y'')
   \<and> nvp_inverse_log_det_jacobian ((example_flow 2)\<lparr>validate_args := True\<rparr>) [(Fin 1, Fin 2)] ()
        = Inl (NotImplementedError ''_maybe_assert_valid_y'')"
proof -
  have v: "\<not> validate_args (example_layer ''even'')" "\<not> validate_args (example_flow 2)"
    "validate_args (inf_layer ''even'' (Fin 0, Fin 0) True)"
    "validate_args ((example_flow 2)\<lparr>validate_args := True\<rparr>)"
    by (simp_all add: example_layer_simps example_flow_simps inf_layer_simps)
  note a = validation_hooks [of "example_layer ''even''" "[(Fin 1, Fin 2)]" "example_flow 2" "()"]
  note b = validation_hooks [of "inf_layer ''even'' (Fin 0, Fin 0) True" "[(Fin 1, Fin 2)]"
      "(example_flow 2)\<lparr>validate_args := True\<rparr>" "()"]
  from a b v show ?thesis by blast
qed

text \<open>
  Claim C10. The inverse transform of a coupling layer never raises the error of
  \<^verbatim>\<open>tf.check_numerics\<close>; with validation off and scale and translation functions that
  return one row for each input row it returns a value, whatever \<^verbatim>\<open>tf.exp(-scale)\<close> is.
\<close>

theorem inverse_has_no_numeric_guard:
  "(\<forall>message. coupling_inverse l y c \<noteq> Inl (InvalidArgumentError message))
   \<and> (\<not> validate_args l \<and> same_batch l y c \<longrightarrow> (\<exists>x. coupling_inverse l y c = Inr x))"
proof (intro conjI allI impI)
  fix message
  show "coupling_inverse l y c \<noteq> Inl (InvalidArgumentError message)"
    unfolding coupling_inverse_def Let_def coupling_maybe_assert_valid_y_def
    by (intro bindE_not_numeric broadcast_not_numeric stack_not_numeric)
       (simp_all add: bindE_not_numeric broadcast_not_numeric stack_not_numeric)
next
  assume "\<not> validate_args l \<and> same_batch l y c"
  then show "\<exists>x. coupling_inverse l y c = Inr x"
    by (simp add: coupling_inverse_returns)
qed

theorem inverse_has_no_numeric_guard_witness:
  "\<not> validate_args (inf_layer ''even'' (NInf, Fin 0) False)
   \<and> same_batch (inf_layer ''even'' (NInf, Fin 0) False) [(Fin 1, Fin 2)] ()
   \<and> inverse_exp_neg_scale (inf_layer ''even'' (NInf, Fin 0) False) [(Fin 1, Fin 2)] () = [PInf]
   \<and> coupling_inverse (inf_layer ''even'' (NInf, Fin 0) False) [(Fin 1, Fin 2)] () = Inr [(Fin 1, PInf)]
   \<and> (\<exists>x. coupling_inverse (inf_layer ''even'' (NInf, Fin 0) False) [(Fin 1, Fin 2)] () = Inr x)"
proof -
  have a: "\<not> validate_args (inf_layer ''even'' (NInf, Fin 0) False)"
    "same_batch (inf_layer ''even'' (NInf, Fin 0) False) [(Fin 1, Fin 2)] ()"
    "inverse_exp_neg_scale (inf_layer ''even'' (NInf, Fin 0) False) [(Fin 1, Fin 2)] () = [PInf]"
    "coupling_inverse (inf_layer ''even'' (NInf, Fin 0) False) [(Fin 1, Fin 2)] () = Inr [(Fin 1, PInf)]"
    by (simp_all add: inverse_exp_neg_scale_def same_batch_def eval_defs inf_layer_simps
        get_mask_even)
  note i = inverse_has_no_numeric_guard [of "inf_layer ''even'' (NInf, Fin 0) False"
      "[(Fin 1, Fin 2)]" "()"]
  from i a show ?thesis by blast
qed

end
